theory Spec2Isabelle
  imports Complex_Main
begin

section \<open>VQE for the H2 molecule: the model of \<open>vqe_h2.py\<close>\<close>

text \<open>
  The development embeds class \<open>H2VQE\<close> of \<open>src/vqe_h2/vqe_h2.py\<close>.
  Python floats are idealised as the real numbers (\<^typ>\<open>real\<close>): \<open>np.exp\<close>,
  \<open>np.cos\<close> and \<open>np.sin\<close> are \<open>exp\<close>, \<open>cos\<close> and \<open>sin\<close>, a float
  literal is the decimal fraction it writes, and the rounding of IEEE doubles and the
  underflow of \<open>np.exp\<close> to zero are not represented. Float arithmetic raises in one
  place of the code, the power \<open>**\<close> on a Python float, whose \<open>OverflowError\<close> is
  part of the model. Python ints are \<^typ>\<open>int\<close>. A one-dimensional
  \<open>np.ndarray\<close> of floats is a \<^typ>\<open>real list\<close>. Printing to standard output is
  not part of the state and is left out. The methods \<open>ansatz_circuit\<close>, which builds
  a circuit object of an external library, and \<open>get_history\<close>, which returns a copy of
  the history dict, take no part in the properties below and are not embedded.
\<close>

subsection \<open>Errors and fallible accesses\<close>

text \<open>
  The exceptions the modelled code can meet: a missing dictionary key, an index out of
  range, a float power too large for a double, and a failure raised inside the external
  minimizer, which \<open>optimize\<close> does not catch.
\<close>

datatype error = KeyError | IndexError | OverflowError | OptimizerFailure

text \<open>\<open>d[k]\<close> on a dict: raises \<open>KeyError\<close> when the key is absent.\<close>

definition getitem :: "(string \<rightharpoonup> real) \<Rightarrow> string \<Rightarrow> error + real" where
  "getitem d k = (case d k of None \<Rightarrow> Inl KeyError | Some v \<Rightarrow> Inr v)"

text \<open>\<open>params[i]\<close> for a non-negative index: raises \<open>IndexError\<close> out of range.\<close>

definition index :: "real list \<Rightarrow> nat \<Rightarrow> error + real" where
  "index xs i = (if i < length xs then Inr (xs ! i) else Inl IndexError)"

text \<open>Sequencing of fallible steps: the first exception ends the computation.\<close>

definition bind_err :: "error + 'a \<Rightarrow> ('a \<Rightarrow> error + 'b) \<Rightarrow> error + 'b" where
  "bind_err m f = (case m of Inl e \<Rightarrow> Inl e | Inr v \<Rightarrow> f v)"

text \<open>
  A real number is too large for a double when its nearest double is infinite: from
  \<open>2^1024 - 2^970\<close>, halfway between the largest double and \<open>2^1024\<close>, on.
\<close>

definition double_overflow :: "real \<Rightarrow> bool" where
  "double_overflow y = (\<bar>y\<bar> \<ge> 2 ^ 1024 - 2 ^ 970)"

text \<open>
  \<open>x ** n\<close> on a Python float, for a natural exponent: raises \<open>OverflowError\<close> when
  the result is too large for a double (a float product or sum would give \<open>inf\<close>
  instead; the power raises).
\<close>

definition float_pow :: "real \<Rightarrow> nat \<Rightarrow> error + real" where
  "float_pow x n = (if double_overflow (x ^ n) then Inl OverflowError else Inr (x ^ n))"

subsection \<open>The instance state\<close>

text \<open>
  \<open>self.history\<close> is a dict with the three fixed keys \<open>'energies'\<close>, \<open>'params'\<close>
  and \<open>'iterations'\<close>, whose values are lists of different element types; it is a
  record with one field per key.
\<close>

record history_dict =
  energies :: "real list"
  params :: "real list list"
  iterations :: "int list"

record 'b H2VQE =
  bond_length :: real
  backend :: "'b option"
  history :: history_dict
  optimal_energy :: "real option"
  optimal_params :: "real list option"
  iteration_count :: int

text \<open>\<open>__init__(self, bond_length = 0.735, backend = None)\<close>.\<close>

definition H2VQE_init :: "real \<Rightarrow> 'b option \<Rightarrow> 'b H2VQE" where
  "H2VQE_init r b =
     \<lparr> bond_length = r,
       backend = b,
       history = \<lparr> energies = [], params = [], iterations = [] \<rparr>,
       optimal_energy = None,
       optimal_params = None,
       iteration_count = 0 \<rparr>"

subsection \<open>The Hamiltonian\<close>

text \<open>
  \<open>_calculate_hamiltonian_coefficients(self)\<close> (an Isabelle name cannot start with an
  underscore). The bond length is a Python float, as the signature of \<open>__init__\<close>
  declares, so each of the two squares \<open>(r - 0.735)**2\<close> can raise \<open>OverflowError\<close>.
\<close>

definition calculate_hamiltonian_coefficients :: "'b H2VQE \<Rightarrow> error + (string \<rightharpoonup> real)" where
  "calculate_hamiltonian_coefficients self =
     (let r = bond_length self;
          h_ii = - 1.0523732
      in bind_err (float_pow (r - 0.735) 2) (\<lambda>sq_zz.
           let h_zz = 0.39793742 * exp (- 0.1 * sq_zz) in
         bind_err (float_pow (r - 0.735) 2) (\<lambda>sq_zi.
           let h_zi = - 0.39793742 * 0.5 * exp (- 0.05 * sq_zi)
           in Inr [''II'' \<mapsto> h_ii, ''ZZ'' \<mapsto> h_zz, ''ZI'' \<mapsto> h_zi, ''IZ'' \<mapsto> h_zi])))"

text \<open>
  \<open>get_h2_hamiltonian_simplified(self)\<close>: a new dict built from four lookups in the
  dict \<open>_calculate_hamiltonian_coefficients\<close> returns, whose exception it lets through.
\<close>

definition get_h2_hamiltonian_simplified :: "'b H2VQE \<Rightarrow> error + (string \<rightharpoonup> real)" where
  "get_h2_hamiltonian_simplified self =
     bind_err (calculate_hamiltonian_coefficients self) (\<lambda>h_coeff.
         bind_err (getitem h_coeff ''II'') (\<lambda>ii.
         bind_err (getitem h_coeff ''ZZ'') (\<lambda>zz.
         bind_err (getitem h_coeff ''ZI'') (\<lambda>zi.
         bind_err (getitem h_coeff ''IZ'') (\<lambda>iz.
         Inr [''II'' \<mapsto> ii, ''ZZ'' \<mapsto> zz, ''ZI'' \<mapsto> zi, ''IZ'' \<mapsto> iz])))))"

subsection \<open>The energy\<close>

text \<open>\<open>np.arange(a, b)\<close> for natural bounds: the numbers \<open>a, ..., b - 1\<close>.\<close>

definition arange :: "nat \<Rightarrow> nat \<Rightarrow> real list" where
  "arange a b = map real [a ..< b]"

text \<open>
  \<open>measure_expectation_value(self, params)\<close>. \<open>np.sum\<close> and \<open>np.prod\<close> of an empty
  array are 0 and 1; \<open>params[:4]\<close> is \<open>take 4\<close>; \<open>params * np.arange(...)\<close> multiplies
  two arrays of the same length element by element.
\<close>

definition measure_expectation_value :: "'b H2VQE \<Rightarrow> real list \<Rightarrow> error + real" where
  "measure_expectation_value self ps =
     bind_err (get_h2_hamiltonian_simplified self) (\<lambda>h_dict.
     bind_err (getitem h_dict ''II'') (\<lambda>energy0.
       let param_sum = sum_list ps;
           param_prod = (if length ps \<ge> 4 then prod_list (take 4 ps) else 0.1);
           zz_exp = 0.3 * cos param_prod * sin param_sum
       in
     bind_err (if length ps > 0
               then bind_err (index ps 0) (\<lambda>p0. Inr (0.2 * cos p0))
               else Inr 0.1) (\<lambda>zi_exp.
     bind_err (if length ps > 1
               then bind_err (index ps 1) (\<lambda>p1. Inr (0.2 * sin p1))
               else Inr 0.1) (\<lambda>iz_exp.
     bind_err (getitem h_dict ''ZZ'') (\<lambda>zz.
       let energy1 = energy0 + zz * zz_exp in
     bind_err (getitem h_dict ''ZI'') (\<lambda>zi.
       let energy2 = energy1 + zi * zi_exp in
     bind_err (getitem h_dict ''IZ'') (\<lambda>iz.
       let energy3 = energy2 + iz * iz_exp;
           noise = 0.001 * sin (sum_list (map2 (*) ps (arange 1 (length ps + 1))))
       in Inr (energy3 + noise))))))))"

subsection \<open>The progress callback\<close>

text \<open>
  \<open>callback(self, xk)\<close>. The counter is incremented before the energy is evaluated, so
  an exception of the evaluation would leave the incremented counter behind; the three
  appends follow. The progress line printed every fifth iteration is output only.
\<close>

definition callback :: "'b H2VQE \<Rightarrow> real list \<Rightarrow> (error + unit) \<times> 'b H2VQE" where
  "callback self xk =
     (let self1 = self\<lparr>iteration_count := iteration_count self + 1\<rparr>
      in case measure_expectation_value self1 xk of
           Inl e \<Rightarrow> (Inl e, self1)
         | Inr energy \<Rightarrow>
             (Inr (),
              self1\<lparr>history := (history self1)
                 \<lparr>energies := energies (history self1) @ [energy],
                  params := params (history self1) @ [xk],
                  iterations := iterations (history self1) @ [iteration_count self1]\<rparr>\<rparr>))"

subsection \<open>The minimizer and the optimization run\<close>

text \<open>
  \<open>scipy.optimize.minimize\<close> is a library, not code of this repository, and is a
  parameter of the model. What it can do to the instance is fixed by the two bound
  methods it is handed: it evaluates the objective at points of its choice and reads
  the values, it invokes the progress callback at points of its choice, and it ends by
  returning a result (\<open>result.fun\<close>, \<open>result.x\<close>) or by raising. A run of the
  minimizer is such a finite interaction.
\<close>

datatype minimizer =
    Objective "real list" "real \<Rightarrow> minimizer"
  | Progress "real list" minimizer
  | Return real "real list"
  | Raise

text \<open>
  Running the minimizer against the instance: the objective is
  \<open>self.measure_expectation_value\<close>, the callback is \<open>self.callback\<close>; an exception of
  either is not caught and ends the run with the state as it is.
\<close>

primrec run_minimizer :: "minimizer \<Rightarrow> 'b H2VQE \<Rightarrow> (error + real \<times> real list) \<times> 'b H2VQE" where
  "run_minimizer (Objective x k) self =
     (case measure_expectation_value self x of
        Inl e \<Rightarrow> (Inl e, self)
      | Inr v \<Rightarrow> run_minimizer (k v) self)"
| "run_minimizer (Progress xk m) self =
     (case callback self xk of
        (Inl e, self1) \<Rightarrow> (Inl e, self1)
      | (Inr _, self1) \<Rightarrow> run_minimizer m self1)"
| "run_minimizer (Return f x) self = (Inr (f, x), self)"
| "run_minimizer Raise self = (Inl OptimizerFailure, self)"

text \<open>
  \<open>optimize(self, initial_params = None, maxiter = 100)\<close>. The parameter \<open>minimize\<close>
  gives the minimizer's run for a start point, \<open>maxiter\<close> and \<open>rhobeg\<close>; the parameter
  \<open>uniform\<close> is the array \<open>np.random.uniform(0, 2*np.pi, 8)\<close> draws. The initial
  energy is evaluated for the line that prints it. \<open>maxiter\<close> reaches the minimizer
  unchecked.
\<close>

definition optimize ::
  "(real list \<Rightarrow> int \<Rightarrow> real \<Rightarrow> minimizer) \<Rightarrow> real list \<Rightarrow>
   'b H2VQE \<Rightarrow> real list option \<Rightarrow> int \<Rightarrow> (error + real \<times> real list) \<times> 'b H2VQE" where
  "optimize minimize uniform self initial_params maxiter =
     (let initial_params1 = (case initial_params of None \<Rightarrow> uniform | Some x0 \<Rightarrow> x0)
      in case measure_expectation_value self initial_params1 of
           Inl e \<Rightarrow> (Inl e, self)
         | Inr _ \<Rightarrow>
             (case run_minimizer (minimize initial_params1 maxiter 1.0) self of
                (Inl e, self1) \<Rightarrow> (Inl e, self1)
              | (Inr (result_fun, result_x), self1) \<Rightarrow>
                  (Inr (result_fun, result_x),
                   self1\<lparr>optimal_energy := Some result_fun,
                          optimal_params := Some result_x\<rparr>)))"

subsection \<open>The energy curve\<close>

text \<open>\<open>np.ones(n)\<close>.\<close>

definition ones :: "nat \<Rightarrow> real list" where
  "ones n = replicate n 1"

text \<open>
  The loop of \<open>get_energy_curve\<close>: \<open>es\<close> is the list \<open>energies\<close> built so far. Each
  round assigns \<open>self.bond_length\<close> and appends the energy at \<open>np.ones(8) * 0.5\<close>.
\<close>

fun energy_loop :: "real list \<Rightarrow> real list \<Rightarrow> 'b H2VQE \<Rightarrow> (error + real list) \<times> 'b H2VQE" where
  "energy_loop [] es self = (Inr es, self)"
| "energy_loop (r # rs) es self =
     (let self1 = self\<lparr>bond_length := r\<rparr>;
          ps = map (\<lambda>x. x * 0.5) (ones 8)
      in case measure_expectation_value self1 ps of
           Inl e \<Rightarrow> (Inl e, self1)
         | Inr energy \<Rightarrow> energy_loop rs (es @ [energy]) self1)"

text \<open>\<open>get_energy_curve(self, bond_lengths)\<close> returns its argument and the energies.\<close>

definition get_energy_curve ::
  "'b H2VQE \<Rightarrow> real list \<Rightarrow> (error + real list \<times> real list) \<times> 'b H2VQE" where
  "get_energy_curve self bond_lengths =
     (case energy_loop bond_lengths [] self of
        (Inl e, self1) \<Rightarrow> (Inl e, self1)
      | (Inr es, self1) \<Rightarrow> (Inr (bond_lengths, es), self1))"

subsection \<open>The specification's formulas\<close>

text \<open>
  The energy as the specification writes it (section 4.2), for coefficients \<open>cII\<close>,
  \<open>cZZ\<close>, \<open>cZI\<close>, \<open>cIZ\<close> and a parameter vector \<open>p\<close>. It follows the
  specification's words and is compared with \<open>measure_expectation_value\<close> below.
\<close>

definition spec_evaluate :: "real \<Rightarrow> real \<Rightarrow> real \<Rightarrow> real \<Rightarrow> real list \<Rightarrow> real" where
  "spec_evaluate cII cZZ cZI cIZ p =
     (let s = sum_list p;
          q = (if length p \<ge> 4 then p ! 0 * p ! 1 * p ! 2 * p ! 3 else 0.1);
          zi = (if length p > 0 then 0.2 * cos (p ! 0) else 0.1);
          iz = (if length p > 1 then 0.2 * sin (p ! 1) else 0.1)
      in cII + cZZ * (0.3 * cos q * sin s) + cZI * zi + cIZ * iz
           + 0.001 * sin (\<Sum>i<length p. p ! i * real (i + 1)))"

text \<open>
  The coefficients as the specification writes them (section 4.1), as functions of the
  bond length, and the energy they give.
\<close>

definition spec_ZZ :: "real \<Rightarrow> real" where
  "spec_ZZ r = 0.39793742 * exp (- 0.1 * (r - 0.735)\<^sup>2)"

definition spec_ZI :: "real \<Rightarrow> real" where
  "spec_ZI r = - 0.39793742 * 0.5 * exp (- 0.05 * (r - 0.735)\<^sup>2)"

definition spec_energy :: "real \<Rightarrow> real list \<Rightarrow> real" where
  "spec_energy r p = spec_evaluate (- 1.0523732) (spec_ZZ r) (spec_ZI r) (spec_ZI r) p"

text \<open>
  The trace is consistent with the counter: the iteration numbers are \<open>1, ..., k\<close> for
  the counter \<open>k\<close>, and the three histories have \<open>k\<close> entries each.
\<close>

definition trace_consistent :: "'b H2VQE \<Rightarrow> bool" where
  "trace_consistent self =
     (iterations (history self) = [1 .. iteration_count self] \<and>
      int (length (iterations (history self))) = iteration_count self \<and>
      int (length (energies (history self))) = iteration_count self \<and>
      int (length (params (history self))) = iteration_count self)"

section \<open>Properties\<close>

subsection \<open>The Hamiltonian\<close>

lemma calculate_hamiltonian_coefficients_eq:
  "calculate_hamiltonian_coefficients self =
     (if double_overflow ((bond_length self - 0.735)\<^sup>2) then Inl OverflowError
      else Inr [''II'' \<mapsto> - 1.0523732, ''ZZ'' \<mapsto> spec_ZZ (bond_length self),
                ''ZI'' \<mapsto> spec_ZI (bond_length self), ''IZ'' \<mapsto> spec_ZI (bond_length self)])"
  by (simp add: calculate_hamiltonian_coefficients_def float_pow_def bind_err_def
      spec_ZZ_def spec_ZI_def Let_def)

lemma get_h2_hamiltonian_simplified_eq:
  "get_h2_hamiltonian_simplified self = calculate_hamiltonian_coefficients self"
  by (simp add: get_h2_hamiltonian_simplified_def calculate_hamiltonian_coefficients_eq
      getitem_def bind_err_def)

lemma no_overflow_zero: "\<not> double_overflow 0"
  by (simp add: double_overflow_def)

lemma no_overflow_small:
  assumes "\<bar>x\<bar> \<le> 1000"
  shows "\<not> double_overflow (x\<^sup>2)"
proof -
  from assms have "\<bar>x\<bar> \<le> \<bar>1000\<bar>" by simp
  then have "x\<^sup>2 \<le> 1000\<^sup>2"
    by (simp only: abs_le_square_iff)
  also have "(1000\<^sup>2 :: real) < 2 ^ 1024 - 2 ^ 970" by simp
  finally show ?thesis by (simp add: double_overflow_def)
qed

lemma overflow_huge: "double_overflow ((10 ^ 200 - 0.735)\<^sup>2)"
proof -
  have a: "(10 ^ 199 :: real) \<le> 10 ^ 200 - 0.735" by simp
  have "(2 ^ 1024 - 2 ^ 970 :: real) \<le> (10 ^ 199)\<^sup>2" by simp
  also have "\<dots> \<le> (10 ^ 200 - 0.735)\<^sup>2"
    using a by (rule power_mono) simp
  finally show ?thesis by (simp add: double_overflow_def)
qed

lemma equilibrium_coefficients:
  "get_h2_hamiltonian_simplified (H2VQE_init 0.735 (None :: unit option)) =
     Inr [''II'' \<mapsto> - 1.0523732, ''ZZ'' \<mapsto> 0.39793742,
          ''ZI'' \<mapsto> - 0.19896871, ''IZ'' \<mapsto> - 0.19896871]"
  by (simp add: get_h2_hamiltonian_simplified_eq calculate_hamiltonian_coefficients_eq
      no_overflow_zero spec_ZZ_def spec_ZI_def H2VQE_init_def)

text \<open>
  C3: at bond length 0.735 the coefficients are exactly \<open>II = -1.0523732\<close>,
  \<open>ZZ = 0.39793742\<close>, \<open>ZI = IZ = -0.19896871\<close>, both from
  \<open>_calculate_hamiltonian_coefficients\<close> and from \<open>get_h2_hamiltonian_simplified\<close>.
\<close>

theorem coefficients_at_equilibrium:
  "calculate_hamiltonian_coefficients (self\<lparr>bond_length := 0.735\<rparr>) =
     Inr [''II'' \<mapsto> - 1.0523732, ''ZZ'' \<mapsto> 0.39793742,
          ''ZI'' \<mapsto> - 0.19896871, ''IZ'' \<mapsto> - 0.19896871]
   \<and> get_h2_hamiltonian_simplified (self\<lparr>bond_length := 0.735\<rparr>) =
     Inr [''II'' \<mapsto> - 1.0523732, ''ZZ'' \<mapsto> 0.39793742,
          ''ZI'' \<mapsto> - 0.19896871, ''IZ'' \<mapsto> - 0.19896871]"
  by (simp add: get_h2_hamiltonian_simplified_eq calculate_hamiltonian_coefficients_eq
      no_overflow_zero spec_ZZ_def spec_ZI_def)

text \<open>
  C5: for every bond length, in every dict of coefficients that
  \<open>_calculate_hamiltonian_coefficients\<close> or \<open>get_h2_hamiltonian_simplified\<close> returns, the
  coefficients \<open>ZI\<close> and \<open>IZ\<close> are present and identical.
\<close>

theorem coefficients_ZI_eq_IZ:
  "(calculate_hamiltonian_coefficients self = Inr c \<longrightarrow>
      (\<exists>v. c ''ZI'' = Some v \<and> c ''IZ'' = Some v)) \<and>
   (get_h2_hamiltonian_simplified self = Inr c' \<longrightarrow>
      (\<exists>v. c' ''ZI'' = Some v \<and> c' ''IZ'' = Some v))"
  by (auto simp: get_h2_hamiltonian_simplified_eq calculate_hamiltonian_coefficients_eq
      split: if_splits)

theorem coefficients_ZI_eq_IZ_witness:
  "get_h2_hamiltonian_simplified (H2VQE_init 0.735 (None :: unit option)) =
     Inr [''II'' \<mapsto> - 1.0523732, ''ZZ'' \<mapsto> 0.39793742,
          ''ZI'' \<mapsto> - 0.19896871, ''IZ'' \<mapsto> - 0.19896871] \<and>
   [''II'' \<mapsto> - 1.0523732, ''ZZ'' \<mapsto> 0.39793742,
    ''ZI'' \<mapsto> - 0.19896871, ''IZ'' \<mapsto> - 0.19896871 :: real] ''ZI'' =
   [''II'' \<mapsto> - 1.0523732, ''ZZ'' \<mapsto> 0.39793742,
    ''ZI'' \<mapsto> - 0.19896871, ''IZ'' \<mapsto> - 0.19896871 :: real] ''IZ''"
  using coefficients_ZI_eq_IZ[of "H2VQE_init 0.735 (None :: unit option)"
      "[''II'' \<mapsto> - 1.0523732, ''ZZ'' \<mapsto> 0.39793742,
        ''ZI'' \<mapsto> - 0.19896871, ''IZ'' \<mapsto> - 0.19896871]"
      "[''II'' \<mapsto> - 1.0523732, ''ZZ'' \<mapsto> 0.39793742,
        ''ZI'' \<mapsto> - 0.19896871, ''IZ'' \<mapsto> - 0.19896871]"]
    equilibrium_coefficients
  by simp






subsection \<open>The energy\<close>

lemma prod_list_take4:
  assumes "4 \<le> length p"
  shows "prod_list (take 4 p) = p ! 0 * p ! 1 * p ! 2 * p ! 3"
proof -
  from assms obtain a b c d r where "p = a # b # c # d # r"
    by (cases p; cases "tl p"; cases "tl (tl p)"; cases "tl (tl (tl p))") auto
  then show ?thesis by (simp add: mult.assoc)
qed

lemma weighted_sum:
  "sum_list (map2 (*) p (arange k (length p + k))) = (\<Sum>i<length p. p ! i * real (i + k))"
proof (induction p arbitrary: k)
  case Nil
  show ?case by (simp add: arange_def)
next
  case (Cons x xs)
  have a: "arange k (length (x # xs) + k) = real k # arange (Suc k) (length xs + Suc k)"
    by (simp add: arange_def upt_rec)
  have "(\<Sum>i<length (x # xs). (x # xs) ! i * real (i + k))
      = (x # xs) ! 0 * real (0 + k) + (\<Sum>i<length xs. (x # xs) ! Suc i * real (Suc i + k))"
    by (simp only: list.size sum.lessThan_Suc_shift add_Suc_right add_0_right One_nat_def)
  also have "\<dots> = x * real k + (\<Sum>i<length xs. xs ! i * real (i + Suc k))"
    by simp
  finally show ?case using Cons.IH[of "Suc k"] a by simp
qed

lemma measure_with_coefficients:
  assumes "get_h2_hamiltonian_simplified self =
             Inr [''II'' \<mapsto> cII, ''ZZ'' \<mapsto> cZZ, ''ZI'' \<mapsto> cZI, ''IZ'' \<mapsto> cIZ]"
  shows "measure_expectation_value self p = Inr (spec_evaluate cII cZZ cZI cIZ p)"
proof -
  have n: "sum_list (map2 (*) p (arange 1 (length p + 1))) =
             (\<Sum>i<length p. p ! i * real (i + 1))"
    by (rule weighted_sum)
  show ?thesis
    unfolding measure_expectation_value_def assms spec_evaluate_def n
    by (simp add: bind_err_def getitem_def index_def Let_def prod_list_take4)
qed

lemma measure_overflow:
  assumes "double_overflow ((bond_length self - 0.735)\<^sup>2)"
  shows "measure_expectation_value self p = Inl OverflowError"
  using assms
  by (simp add: measure_expectation_value_def get_h2_hamiltonian_simplified_eq
      calculate_hamiltonian_coefficients_eq bind_err_def)

lemma measure_in_range:
  assumes "\<not> double_overflow ((bond_length self - 0.735)\<^sup>2)"
  shows "measure_expectation_value self p = Inr (spec_energy (bond_length self) p)"
  unfolding spec_energy_def
  by (rule measure_with_coefficients)
     (use assms in \<open>simp add: get_h2_hamiltonian_simplified_eq
        calculate_hamiltonian_coefficients_eq\<close>)

lemma measure_closed:
  "measure_expectation_value self p =
     (if double_overflow ((bond_length self - 0.735)\<^sup>2) then Inl OverflowError
      else Inr (spec_energy (bond_length self) p))"
  by (simp add: measure_overflow measure_in_range)

text \<open>
  C1: for every parameter vector \<open>p\<close>, and the coefficients \<open>cII\<close>, \<open>cZZ\<close>, \<open>cZI\<close>,
  \<open>cIZ\<close> of the instance's Hamiltonian, \<open>measure_expectation_value\<close> returns exactly
  the specification's formula: \<open>cII + cZZ*(0.3*cos(q)*sin(s)) + cZI*zi + cIZ*iz +
  0.001*sin(sum of p[i]*(i+1))\<close> with the length-dependent \<open>q\<close>, \<open>zi\<close> and \<open>iz\<close>.
\<close>

theorem measure_expectation_value_formula:
  assumes "get_h2_hamiltonian_simplified self =
             Inr [''II'' \<mapsto> cII, ''ZZ'' \<mapsto> cZZ, ''ZI'' \<mapsto> cZI, ''IZ'' \<mapsto> cIZ]"
  shows "measure_expectation_value self p = Inr (spec_evaluate cII cZZ cZI cIZ p)"
  using assms by (rule measure_with_coefficients)

theorem measure_expectation_value_formula_witness:
  "get_h2_hamiltonian_simplified (H2VQE_init 0.735 (None :: unit option)) =
     Inr [''II'' \<mapsto> - 1.0523732, ''ZZ'' \<mapsto> 0.39793742,
          ''ZI'' \<mapsto> - 0.19896871, ''IZ'' \<mapsto> - 0.19896871]
   \<and> measure_expectation_value (H2VQE_init 0.735 (None :: unit option)) [0, 0, 0, 0] =
       Inr (- 1.092166942)"
  using measure_expectation_value_formula[OF equilibrium_coefficients, of "[0, 0, 0, 0]"]
    equilibrium_coefficients
  by (simp add: spec_evaluate_def)

text \<open>
  C6: for a single-element vector \<open>[x]\<close> the energy uses \<open>zi_exp = 0.2*cos(x)\<close>, the
  fallback \<open>iz_exp = 0.1\<close> and the fallback \<open>param_prod = 0.1\<close>: it is
  \<open>cII + cZZ*0.3*cos(0.1)*sin(x) + cZI*0.2*cos(x) + cIZ*0.1 + 0.001*sin(x)\<close>.
\<close>

theorem measure_expectation_value_singleton:
  assumes "get_h2_hamiltonian_simplified self =
             Inr [''II'' \<mapsto> cII, ''ZZ'' \<mapsto> cZZ, ''ZI'' \<mapsto> cZI, ''IZ'' \<mapsto> cIZ]"
  shows "measure_expectation_value self [x] =
           Inr (cII + cZZ * 0.3 * cos 0.1 * sin x + cZI * 0.2 * cos x + cIZ * 0.1
                + 0.001 * sin x)"
  using measure_with_coefficients[OF assms, of "[x]"]
  by (simp add: spec_evaluate_def)

theorem measure_expectation_value_singleton_witness:
  "get_h2_hamiltonian_simplified (H2VQE_init 0.735 (None :: unit option)) =
     Inr [''II'' \<mapsto> - 1.0523732, ''ZZ'' \<mapsto> 0.39793742,
          ''ZI'' \<mapsto> - 0.19896871, ''IZ'' \<mapsto> - 0.19896871]
   \<and> measure_expectation_value (H2VQE_init 0.735 (None :: unit option)) [0] =
       Inr (- 1.112063813)"
  using measure_expectation_value_singleton[OF equilibrium_coefficients, of 0]
    equilibrium_coefficients
  by simp

text \<open>
  C2, as the specification states it: the energy at eight zeros and bond length 0.735
  would be \<open>-1.0923464\<close>. It is not.
\<close>

theorem zeros_energy_not_as_stated:
  "measure_expectation_value (H2VQE_init 0.735 (None :: unit option))
     [0, 0, 0, 0, 0, 0, 0, 0] \<noteq> Inr (- 1.0923464)"
  by (simp add: measure_closed no_overflow_zero spec_energy_def spec_evaluate_def
      spec_ZZ_def spec_ZI_def H2VQE_init_def)

text \<open>
  C2, amended: the energy at eight zeros and bond length 0.735 is
  \<open>-1.0523732 + (-0.19896871) * 0.2 = -1.092166942\<close>.
\<close>

theorem zeros_energy:
  "measure_expectation_value (self\<lparr>bond_length := 0.735\<rparr>) [0, 0, 0, 0, 0, 0, 0, 0] =
     Inr (- 1.092166942)"
  by (simp add: measure_closed no_overflow_zero spec_energy_def spec_evaluate_def
      spec_ZZ_def spec_ZI_def)

subsection \<open>The callback and the optimization run\<close>

lemma trace_consistent_init: "trace_consistent (H2VQE_init r bk)"
  by (simp add: trace_consistent_def H2VQE_init_def)

lemma callback_eq:
  assumes "\<not> double_overflow ((bond_length self - 0.735)\<^sup>2)"
  shows "callback self xk =
     (Inr (),
      self\<lparr>iteration_count := iteration_count self + 1,
           history := (history self)
             \<lparr>energies := energies (history self) @ [spec_energy (bond_length self) xk],
              params := params (history self) @ [xk],
              iterations := iterations (history self) @ [iteration_count self + 1]\<rparr>\<rparr>)"
  using assms by (simp add: callback_def measure_closed Let_def)

lemma callback_bond_length: "bond_length (snd (callback self xk)) = bond_length self"
  by (simp add: callback_def Let_def split: sum.splits)

lemma callback_trace_consistent:
  assumes "trace_consistent self" and "\<not> double_overflow ((bond_length self - 0.735)\<^sup>2)"
  shows "trace_consistent (snd (callback self xk))"
proof -
  from assms(1) have k: "0 \<le> iteration_count self"
    by (auto simp: trace_consistent_def)
  have "[1 .. iteration_count self + 1] = [1 .. iteration_count self] @ [iteration_count self + 1]"
    using k by (simp add: upto_rec2)
  with assms(1) show ?thesis
    by (simp add: callback_eq[OF assms(2)] trace_consistent_def)
qed

lemma run_minimizer_bond_length:
  "bond_length (snd (run_minimizer m self)) = bond_length self"
proof (induction m arbitrary: self)
  case (Objective x k)
  show ?case
    by (simp add: Objective.IH[OF rangeI] split: sum.splits)
next
  case (Progress xk m)
  show ?case
    using callback_bond_length[of self xk]
    by (auto simp: Progress.IH split: prod.splits sum.splits)
next
  case (Return f x)
  show ?case by simp
next
  case Raise
  show ?case by simp
qed

lemma run_minimizer_trace_consistent:
  assumes "trace_consistent self" and "\<not> double_overflow ((bond_length self - 0.735)\<^sup>2)"
  shows "trace_consistent (snd (run_minimizer m self))"
  using assms
proof (induction m arbitrary: self)
  case (Objective x k)
  have "trace_consistent (snd (run_minimizer (k (spec_energy (bond_length self) x)) self))"
    using Objective.prems by (rule Objective.IH[OF rangeI])
  then show ?case using Objective.prems(2) by (simp add: measure_closed)
next
  case (Progress xk m)
  obtain self1 where c: "callback self xk = (Inr (), self1)"
    by (simp add: callback_eq[OF Progress.prems(2)])
  have s: "self1 = snd (callback self xk)"
    by (simp add: c)
  have "trace_consistent self1"
    unfolding s using Progress.prems by (rule callback_trace_consistent)
  moreover have "\<not> double_overflow ((bond_length self1 - 0.735)\<^sup>2)"
    unfolding s using Progress.prems(2) by (simp add: callback_bond_length)
  ultimately have "trace_consistent (snd (run_minimizer m self1))"
    by (rule Progress.IH)
  then show ?case by (simp add: c)
next
  case (Return f x)
  then show ?case by simp
next
  case Raise
  then show ?case by simp
qed

lemma optimize_overflow:
  assumes "double_overflow ((bond_length self - 0.735)\<^sup>2)"
  shows "optimize minimize uniform self ip maxiter = (Inl OverflowError, self)"
  by (simp add: optimize_def measure_overflow[OF assms] Let_def)

lemma optimize_snd:
  assumes "\<not> double_overflow ((bond_length self - 0.735)\<^sup>2)"
  shows "snd (optimize minimize uniform self ip maxiter) =
     (case run_minimizer
             (minimize (case ip of None \<Rightarrow> uniform | Some x0 \<Rightarrow> x0) maxiter 1.0) self of
        (Inl e, self1) \<Rightarrow> self1
      | (Inr (f, x), self1) \<Rightarrow> self1\<lparr>optimal_energy := Some f, optimal_params := Some x\<rparr>)"
  by (simp add: optimize_def measure_in_range[OF assms] Let_def split: prod.splits sum.splits)

lemma optimize_fst:
  assumes "\<not> double_overflow ((bond_length self - 0.735)\<^sup>2)"
  shows "fst (optimize minimize uniform self ip maxiter) =
     fst (run_minimizer
            (minimize (case ip of None \<Rightarrow> uniform | Some x0 \<Rightarrow> x0) maxiter 1.0) self)"
  by (simp add: optimize_def measure_in_range[OF assms] Let_def split: prod.splits sum.splits)

lemma optimize_trace_consistent:
  assumes "trace_consistent self"
  shows "trace_consistent (snd (optimize minimize uniform self ip maxiter))"
proof (cases "double_overflow ((bond_length self - 0.735)\<^sup>2)")
  case True
  then show ?thesis using assms by (simp add: optimize_overflow)
next
  case False
  let ?m = "minimize (case ip of None \<Rightarrow> uniform | Some x0 \<Rightarrow> x0) maxiter 1.0"
  have "trace_consistent (snd (run_minimizer ?m self))"
    using assms False by (rule run_minimizer_trace_consistent)
  then show ?thesis
    by (auto simp: optimize_snd[OF False] trace_consistent_def split: prod.splits sum.splits)
qed

text \<open>
  C4: after a run of \<open>optimize\<close> on a new instance, whether it returned or was ended by
  an exception, the recorded iteration numbers are exactly \<open>1, ..., k\<close> for the
  instance's iteration count \<open>k\<close>, and the iterations, energies and params histories
  have \<open>k\<close> entries each; and a run on any instance whose trace is consistent with its
  counter leaves it so (the histories and the counter are never reset).
\<close>

theorem optimize_trace:
  "(let self' = snd (optimize minimize uniform (H2VQE_init r bk) ip maxiter) in
      iterations (history self') = [1 .. iteration_count self'] \<and>
      int (length (iterations (history self'))) = iteration_count self' \<and>
      int (length (energies (history self'))) = iteration_count self' \<and>
      int (length (params (history self'))) = iteration_count self') \<and>
   (trace_consistent self \<longrightarrow>
      trace_consistent (snd (optimize minimize uniform self ip maxiter)))"
proof (rule conjI)
  have "trace_consistent (snd (optimize minimize uniform (H2VQE_init r bk) ip maxiter))"
    using trace_consistent_init by (rule optimize_trace_consistent)
  then show "let self' = snd (optimize minimize uniform (H2VQE_init r bk) ip maxiter) in
      iterations (history self') = [1 .. iteration_count self'] \<and>
      int (length (iterations (history self'))) = iteration_count self' \<and>
      int (length (energies (history self'))) = iteration_count self' \<and>
      int (length (params (history self'))) = iteration_count self'"
    unfolding trace_consistent_def Let_def .
next
  show "trace_consistent self \<longrightarrow>
      trace_consistent (snd (optimize minimize uniform self ip maxiter))"
    by (rule impI) (rule optimize_trace_consistent)
qed

theorem optimize_trace_witness:
  "trace_consistent (H2VQE_init 0.735 (None :: unit option)) \<and>
   iterations (history (snd (optimize
      (\<lambda>x0 maxiter rhobeg. Progress x0 (Objective x0 (\<lambda>v. Progress x0 Raise)))
      [] (H2VQE_init 0.735 (None :: unit option)) (Some [0, 0, 0, 0, 0, 0, 0, 0]) 1))) = [1, 2] \<and>
   iteration_count (snd (optimize
      (\<lambda>x0 maxiter rhobeg. Progress x0 (Objective x0 (\<lambda>v. Progress x0 Raise)))
      [] (H2VQE_init 0.735 (None :: unit option)) (Some [0, 0, 0, 0, 0, 0, 0, 0]) 1)) = 2 \<and>
   trace_consistent (snd (optimize
      (\<lambda>x0 maxiter rhobeg. Progress x0 (Objective x0 (\<lambda>v. Progress x0 Raise)))
      [] (H2VQE_init 0.735 (None :: unit option)) (Some [0, 0, 0, 0, 0, 0, 0, 0]) 1))"
proof -
  let ?m = "\<lambda>(x0 :: real list) (maxiter :: int) (rhobeg :: real).
              Progress x0 (Objective x0 (\<lambda>v. Progress x0 Raise))"
  let ?self = "H2VQE_init 0.735 (None :: unit option)"
  let ?self' = "snd (optimize ?m [] ?self (Some [0, 0, 0, 0, 0, 0, 0, 0]) 1)"
  have init: "trace_consistent ?self"
    by (simp add: trace_consistent_def H2VQE_init_def)
  have it: "iterations (history ?self') = [1, 2]" and k: "iteration_count ?self' = 2"
    by (simp_all add: optimize_def callback_def measure_closed no_overflow_zero
        H2VQE_init_def Let_def)
  from optimize_trace[of ?m "[]" "0.735" "None :: unit option"
      "Some [0, 0, 0, 0, 0, 0, 0, 0]" 1 ?self] init
  have "trace_consistent ?self'" by blast
  with init it k show ?thesis by blast
qed

text \<open>
  With a bond length whose square does not overflow, the objective and the callback
  never raise, and the only exception a run of the minimizer can end with is the
  minimizer's own.
\<close>

lemma run_minimizer_error:
  assumes "\<not> double_overflow ((bond_length self - 0.735)\<^sup>2)"
    and "fst (run_minimizer m self) = Inl e"
  shows "e = OptimizerFailure"
  using assms
proof (induction m arbitrary: self)
  case (Objective x k)
  from Objective.prems
  have "fst (run_minimizer (k (spec_energy (bond_length self) x)) self) = Inl e"
    by (simp add: measure_closed)
  with Objective.prems(1) show ?case by (rule Objective.IH[OF rangeI])
next
  case (Progress xk m)
  obtain self1 where c: "callback self xk = (Inr (), self1)"
    by (simp add: callback_eq[OF Progress.prems(1)])
  have s: "self1 = snd (callback self xk)"
    by (simp add: c)
  have "\<not> double_overflow ((bond_length self1 - 0.735)\<^sup>2)"
    unfolding s using Progress.prems(1) by (simp add: callback_bond_length)
  moreover from Progress.prems(2) have "fst (run_minimizer m self1) = Inl e"
    by (simp add: c)
  ultimately show ?case by (rule Progress.IH)
next
  case (Return f x)
  then show ?case by simp
next
  case Raise
  then show ?case by simp
qed

subsection \<open>The energy curve\<close>

lemma ones_half: "map (\<lambda>x. x * 0.5) (ones 8) = replicate 8 (0.5::real)"
  by (simp add: ones_def)

lemma energy_loop_eq:
  assumes "\<forall>r\<in>set rs. \<not> double_overflow ((r - 0.735)\<^sup>2)"
  shows "energy_loop rs es self =
     (Inr (es @ map (\<lambda>r. spec_energy r (replicate 8 0.5)) rs),
      if rs = [] then self else self\<lparr>bond_length := last rs\<rparr>)"
  using assms
proof (induction rs arbitrary: es self)
  case Nil
  show ?case by simp
next
  case (Cons r rs)
  from Cons.prems have r: "\<not> double_overflow ((r - 0.735)\<^sup>2)"
    and rs: "\<forall>r\<in>set rs. \<not> double_overflow ((r - 0.735)\<^sup>2)"
    by simp_all
  have m: "measure_expectation_value (self\<lparr>bond_length := r\<rparr>) (replicate 8 0.5) =
             Inr (spec_energy r (replicate 8 0.5))"
    using r by (simp add: measure_closed)
  show ?case
    by (simp only: energy_loop.simps Let_def ones_half m sum.case Cons.IH[OF rs]) simp
qed

lemma energy_loop_state:
  "fst (energy_loop rs es self) = Inr es' \<Longrightarrow>
     snd (energy_loop rs es self) = (if rs = [] then self else self\<lparr>bond_length := last rs\<rparr>)"
proof (induction rs arbitrary: es self)
  case Nil
  show ?case by simp
next
  case (Cons r rs)
  let ?self1 = "self\<lparr>bond_length := r\<rparr>"
  show ?case
  proof (cases "measure_expectation_value ?self1 (map (\<lambda>x. x * 0.5) (ones 8))")
    case (Inl e)
    with Cons.prems show ?thesis by (simp add: Let_def)
  next
    case (Inr energy)
    with Cons.prems have "fst (energy_loop rs (es @ [energy]) ?self1) = Inr es'"
      by (simp add: Let_def)
    then have "snd (energy_loop rs (es @ [energy]) ?self1) =
        (if rs = [] then ?self1 else ?self1\<lparr>bond_length := last rs\<rparr>)"
      by (rule Cons.IH)
    with Inr show ?thesis by (simp add: Let_def)
  qed
qed

lemma get_energy_curve_eq:
  assumes "\<forall>r\<in>set bl. \<not> double_overflow ((r - 0.735)\<^sup>2)"
  shows "get_energy_curve self bl =
     (Inr (bl, map (\<lambda>r. spec_energy r (replicate 8 0.5)) bl),
      if bl = [] then self else self\<lparr>bond_length := last bl\<rparr>)"
  by (simp add: get_energy_curve_def energy_loop_eq[OF assms])




text \<open>
  C8: for every non-empty input sequence, after \<open>get_energy_curve\<close> has completed (it
  returned the two sequences), the instance's bond length is the last element of the
  sequence.
\<close>

theorem get_energy_curve_bond_length:
  assumes "bond_lengths \<noteq> []"
    and "fst (get_energy_curve self bond_lengths) = Inr result"
  shows "bond_length (snd (get_energy_curve self bond_lengths)) = last bond_lengths"
proof -
  from assms(2) obtain es where "fst (energy_loop bond_lengths [] self) = Inr es"
    by (auto simp: get_energy_curve_def split: prod.splits sum.splits)
  then have "snd (energy_loop bond_lengths [] self) =
      (if bond_lengths = [] then self else self\<lparr>bond_length := last bond_lengths\<rparr>)"
    by (rule energy_loop_state)
  with assms(1) show ?thesis
    by (auto simp: get_energy_curve_def split: prod.splits sum.splits)
qed

theorem get_energy_curve_bond_length_witness:
  "[0.5, 1.5 :: real] \<noteq> [] \<and>
   fst (get_energy_curve (H2VQE_init 0.735 (None :: unit option)) [0.5, 1.5]) =
     Inr ([0.5, 1.5], [spec_energy 0.5 (replicate 8 0.5), spec_energy 1.5 (replicate 8 0.5)]) \<and>
   bond_length (snd (get_energy_curve (H2VQE_init 0.735 (None :: unit option)) [0.5, 1.5])) = 1.5"
proof -
  let ?self = "H2VQE_init 0.735 (None :: unit option)"
  have h: "\<forall>r\<in>set [0.5, 1.5 :: real]. \<not> double_overflow ((r - 0.735)\<^sup>2)"
    by (auto intro!: no_overflow_small)
  have f: "fst (get_energy_curve ?self [0.5, 1.5]) =
     Inr ([0.5, 1.5], [spec_energy 0.5 (replicate 8 0.5), spec_energy 1.5 (replicate 8 0.5)])"
    by (simp only: get_energy_curve_eq[OF h] fst_conv list.map)
  have n: "[0.5, 1.5 :: real] \<noteq> []" by simp
  from get_energy_curve_bond_length[OF n f]
  have "bond_length (snd (get_energy_curve ?self [0.5, 1.5])) = 1.5" by simp
  with n f show ?thesis by blast
qed

subsection \<open>Input validation\<close>

text \<open>
  C9, as the specification states it: evaluating the energy at an empty parameter vector
  would raise an invalid-input error. It returns a value: both fallbacks 0.1 are used
  and the sums are empty.
\<close>

theorem empty_vector_no_error:
  "measure_expectation_value (H2VQE_init 0.735 (None :: unit option)) [] = Inr (- 1.092166942)"
  by (simp add: measure_closed no_overflow_zero spec_energy_def spec_evaluate_def
      spec_ZZ_def spec_ZI_def H2VQE_init_def)

text \<open>
  C9, amended: no input is rejected as invalid. An exception of
  \<open>measure_expectation_value\<close> is the \<open>OverflowError\<close> of the Hamiltonian and is raised
  whatever the parameter vector; where the evaluation returns for some vector it returns
  for the empty one. \<open>optimize\<close> does not check \<open>maxiter\<close>: for every \<open>maxiter\<close>, positive
  or not, it ends with that \<open>OverflowError\<close> of its first evaluation or with the outcome
  of the minimizer's run, to which \<open>maxiter\<close> is handed as it is.
\<close>

theorem no_input_validation:
  "(measure_expectation_value self p = Inl e \<longrightarrow>
      e = OverflowError \<and> measure_expectation_value self q = Inl OverflowError) \<and>
   (measure_expectation_value self p = Inr v \<longrightarrow>
      (\<exists>w. measure_expectation_value self [] = Inr w)) \<and>
   (fst (optimize minimize uniform self ip maxiter) = Inl e' \<longrightarrow>
      e' = OverflowError \<or> e' = OptimizerFailure) \<and>
   (measure_expectation_value self x0 = Inr v' \<longrightarrow>
      fst (optimize minimize uniform self (Some x0) maxiter) =
        fst (run_minimizer (minimize x0 maxiter 1.0) self))"
proof (cases "double_overflow ((bond_length self - 0.735)\<^sup>2)")
  case True
  then show ?thesis
    by (simp add: measure_overflow optimize_overflow)
next
  case False
  have "fst (optimize minimize uniform self ip maxiter) = Inl e' \<longrightarrow> e' = OptimizerFailure"
    using run_minimizer_error[OF False] by (simp add: optimize_fst[OF False])
  then show ?thesis
    using False by (simp add: measure_in_range optimize_fst)
qed

theorem no_input_validation_witness:
  "measure_expectation_value (H2VQE_init (10 ^ 200) (None :: unit option)) [] =
     Inl OverflowError \<and>
   measure_expectation_value (H2VQE_init 0.735 (None :: unit option)) [] =
     Inr (- 1.092166942) \<and>
   fst (optimize (\<lambda>x0 maxiter rhobeg. Objective x0 (\<lambda>v. Return v x0)) []
          (H2VQE_init (10 ^ 200) (None :: unit option)) (Some [0, 0, 0, 0, 0, 0, 0, 0]) 1) =
     Inl OverflowError \<and>
   fst (optimize (\<lambda>x0 maxiter rhobeg. Objective x0 (\<lambda>v. Return v x0)) []
          (H2VQE_init 0.735 (None :: unit option)) (Some [0, 0, 0, 0, 0, 0, 0, 0]) 1) =
     Inr (- 1.092166942, [0, 0, 0, 0, 0, 0, 0, 0])"
proof -
  let ?m = "\<lambda>(x0 :: real list) (maxiter :: int) (rhobeg :: real). Objective x0 (\<lambda>v. Return v x0)"
  let ?big = "H2VQE_init (10 ^ 200) (None :: unit option)"
  let ?eq = "H2VQE_init 0.735 (None :: unit option)"
  let ?z = "[0, 0, 0, 0, 0, 0, 0, 0] :: real list"
  have ob: "double_overflow ((bond_length ?big - 0.735)\<^sup>2)"
    using overflow_huge by (simp add: H2VQE_init_def)
  have m1: "measure_expectation_value ?big [] = Inl OverflowError"
    using ob by (rule measure_overflow)
  have o1: "fst (optimize ?m [] ?big (Some ?z) 1) = Inl OverflowError"
    by (simp only: optimize_overflow[OF ob] fst_conv)
  have m2: "measure_expectation_value ?eq [] = Inr (- 1.092166942)"
    by (simp add: measure_closed no_overflow_zero spec_energy_def spec_evaluate_def
        spec_ZZ_def spec_ZI_def H2VQE_init_def)
  have m3: "measure_expectation_value ?eq ?z = Inr (- 1.092166942)"
    by (simp add: measure_closed no_overflow_zero spec_energy_def spec_evaluate_def
        spec_ZZ_def spec_ZI_def H2VQE_init_def)
  from no_input_validation[of ?eq ?z _ _ "- 1.092166942" ?m "[]" "Some ?z" 1 _ ?z
      "- 1.092166942"] m3
  have "fst (optimize ?m [] ?eq (Some ?z) 1) = fst (run_minimizer (?m ?z 1 1.0) ?eq)"
    by blast
  then have o2: "fst (optimize ?m [] ?eq (Some ?z) 1) = Inr (- 1.092166942, ?z)"
    using m3 by simp
  from m1 m2 o1 o2 show ?thesis by blast
qed

end
